theory Spec2Isabelle
  imports Main
begin

unbundle bit_operations_syntax

section \<open>Scripts over the depth-camera SDK\<close>

text \<open>
  The repository is a set of Python scripts that drive the pyrealsense2 binding. The
  binding itself is not part of the repository: every call into it is modelled as an
  event in a trace, and what the call answers (a value, or a raised exception) is read
  from a record of answers that a theorem quantifies over. A script is a value of type
  \<open>'a io\<close>: the trace of what it printed and called, and either the exception that
  left it or its result.
\<close>

subsection \<open>Exceptions, events, and the script monad\<close>

text \<open>
  Python's \<open>except Exception\<close> catches every exception but \<open>SystemExit\<close> (raised
  by \<open>exit(n)\<close>); a bare \<open>except:\<close> catches both.
\<close>

datatype exn = Exception string | SystemExit int

datatype stream_kind = Depth | Color | Infrared

datatype pixel_format = Z16 | BGR8 | Y8 | AnyFormat

record stream_request =
  kind :: stream_kind
  width :: nat
  height :: nat
  pixfmt :: pixel_format
  fps :: nat

text \<open>
  The first argument of an SDK event is the pipeline (or configuration) object the call
  is made on, numbered in creation order within a script.
\<close>

datatype event =
    Print string
  | NewPipeline nat
  | NewConfig nat
  | EnableStream nat stream_request
  | EnableDevice nat string
  | Resolve nat
  | Start nat "stream_request list"
  | GetDevice nat
  | GetInfo nat string
  | QuerySensors nat
  | Supports nat
  | SetOption nat int
  | WaitForFrames nat "nat option"
  | Stop nat
  | QueryDevices
  | MakeDirs string
  | Imwrite string
  | Render
  | WaitKey nat
  | Sleep nat
  | NewContext
  | SensorInfo nat nat string
  | GetStreamProfiles nat nat
  | PathExists string
  | ScaleBar nat
  | DestroyAllWindows
  | Input string
  | ContextDevices

type_synonym 'a io = "event list \<times> (exn + 'a)"

definition io_ret :: "'a \<Rightarrow> 'a io" where
  "io_ret x = ([], Inr x)"

definition io_raise :: "exn \<Rightarrow> 'a io" where
  "io_raise e = ([], Inl e)"

definition io_bind :: "'a io \<Rightarrow> ('a \<Rightarrow> 'b io) \<Rightarrow> 'b io" where
  "io_bind m f =
     (case m of
        (t, Inl e) \<Rightarrow> (t, Inl e)
      | (t, Inr x) \<Rightarrow> (case f x of (t', r) \<Rightarrow> (t @ t', r)))"

text \<open>Statements in sequence: the first one that raises ends the block.\<close>

fun io_seq :: "unit io list \<Rightarrow> unit io" where
  "io_seq [] = io_ret ()"
| "io_seq (m # ms) = io_bind m (\<lambda>_. io_seq ms)"

definition io_print :: "string \<Rightarrow> unit io" where
  "io_print s = ([Print s], Inr ())"

text \<open>
  A call into the SDK (or the operating system): the call is recorded, and the answer,
  an error message or a value, is the one given. The binding raises RuntimeError, a
  subclass of Exception.
\<close>

definition sdk_call :: "event \<Rightarrow> string + 'a \<Rightarrow> 'a io" where
  "sdk_call ev r =
     ([ev], case r of Inl msg \<Rightarrow> Inl (Exception msg) | Inr x \<Rightarrow> Inr x)"

definition io_when :: "bool \<Rightarrow> unit io \<Rightarrow> unit io" where
  "io_when b m = (if b then m else io_ret ())"

text \<open>\<open>try: m  except Exception as e: h e\<close>\<close>

definition try_except :: "'a io \<Rightarrow> (string \<Rightarrow> 'a io) \<Rightarrow> 'a io" where
  "try_except m h =
     (case m of
        (t, Inl (Exception msg)) \<Rightarrow> (case h msg of (t', r) \<Rightarrow> (t @ t', r))
      | (t, Inl (SystemExit n)) \<Rightarrow> (t, Inl (SystemExit n))
      | (t, Inr x) \<Rightarrow> (t, Inr x))"

text \<open>\<open>try: m  except: h\<close>\<close>

definition try_except_all :: "'a io \<Rightarrow> 'a io \<Rightarrow> 'a io" where
  "try_except_all m h =
     (case m of
        (t, Inl e) \<Rightarrow> (case h of (t', r) \<Rightarrow> (t @ t', r))
      | (t, Inr x) \<Rightarrow> (t, Inr x))"

text \<open>
  \<open>try: m  finally: fin\<close>: the finally block always runs; an exception it raises
  replaces the outcome of the try block.
\<close>

definition try_finally :: "'a io \<Rightarrow> unit io \<Rightarrow> 'a io" where
  "try_finally m fin =
     (case m of (t, r) \<Rightarrow>
        (case fin of
           (t', Inl e) \<Rightarrow> (t @ t', Inl e)
         | (t', Inr _) \<Rightarrow> (t @ t', r)))"

text \<open>Decimal text of a number, as \<open>str(n)\<close> and an f-string give it.\<close>

fun show_nat :: "nat \<Rightarrow> string" where
  "show_nat n =
     (if n < 10 then [char_of (48 + n)]
      else show_nat (n div 10) @ [char_of (48 + n mod 10)])"

declare show_nat.simps [simp del]

definition show_bool :: "bool \<Rightarrow> string" where
  "show_bool b = (if b then ''True'' else ''False'')"

text \<open>\<open>sep.join(xs)\<close>\<close>

fun join :: "string \<Rightarrow> string list \<Rightarrow> string" where
  "join sep [] = []"
| "join sep [x] = x"
| "join sep (x # y # ys) = x @ sep @ join sep (y # ys)"

subsection \<open>realsense\_preset.py\<close>

text \<open>What the SDK answers to the calls of \<open>realsense_preset.main\<close>.\<close>

record preset_sdk =
  ps_start :: "string + unit"
  ps_get_device :: "string + unit"
  ps_query_sensors :: "string + nat"
  ps_supports :: "string + bool"
  ps_set_option :: "int \<Rightarrow> string + unit"
  ps_stop :: "string + unit"

definition set_sensor_preset :: "preset_sdk \<Rightarrow> int \<Rightarrow> bool io" where
  "set_sensor_preset sdk preset =
     try_except
       (io_bind (sdk_call (Supports 0) (ps_supports sdk)) (\<lambda>ok.
          if \<not> ok then
            io_bind (io_print ''This sensor does not support visual presets'')
              (\<lambda>_. io_ret False)
          else
            io_bind (sdk_call (SetOption 0 preset) (ps_set_option sdk preset))
              (\<lambda>_. io_ret True)))
       (\<lambda>e. io_bind (io_print (''Error setting sensor preset: '' @ e))
              (\<lambda>_. io_ret False))"

definition presets :: "(string \<times> int) list" where
  "presets =
     [(''no_ambient_light'', 3),
      (''low_ambient_light'', 2),
      (''max_range'', 4),
      (''short_range'', 5)]"

text \<open>\<open>xs[i]\<close> raises IndexError out of range.\<close>

definition py_index :: "'a list \<Rightarrow> nat \<Rightarrow> 'a io" where
  "py_index xs i =
     (if i < length xs then io_ret (xs ! i)
      else io_raise (Exception ''list index out of range''))"

text \<open>
  \<open>main\<close> of realsense\_preset.py; \<open>argv\<close> is \<open>sys.argv\<close>. The condition of the
  \<open>if\<close> short-circuits, so \<open>sys.argv[1]\<close> is read only when there are two entries.
\<close>

definition preset_main :: "preset_sdk \<Rightarrow> string list \<Rightarrow> unit io" where
  "preset_main sdk argv =
     (if length argv \<noteq> 2 \<or> argv ! 1 \<notin> set (map fst presets) then
        io_bind (py_index argv 0) (\<lambda>prog.
          io_seq
            [io_print (''Usage: '' @ prog @ '' <preset>''),
             io_print (''Preset options: '' @ join '', '' (map fst presets))])
      else
        (let preset_name = argv ! 1;
             preset_value = the (map_of presets preset_name)
         in io_seq
           [sdk_call (NewPipeline 0) (Inr ()),
            sdk_call (NewConfig 0) (Inr ()),
            sdk_call (Start 0 []) (ps_start sdk),
            try_finally
              (io_seq
                 [sdk_call (GetDevice 0) (ps_get_device sdk),
                  io_bind (sdk_call (QuerySensors 0) (ps_query_sensors sdk)) (\<lambda>n.
                    if n = 0 then io_raise (Exception ''list index out of range'')
                    else io_ret ()),
                  io_bind (set_sensor_preset sdk preset_value) (\<lambda>applied.
                    if applied then
                      io_print (''Preset '' @ [CHR 0x27] @ preset_name @ [CHR 0x27]
                                @ '' applied successfully'')
                    else
                      io_print (''Failed to apply preset '' @ [CHR 0x27] @ preset_name
                                @ [CHR 0x27]))])
              (sdk_call (Stop 0) (ps_stop sdk))]))"

text \<open>An SDK in which every call of \<open>realsense_preset.main\<close> succeeds.\<close>

definition preset_sdk_ok :: preset_sdk where
  "preset_sdk_ok =
     \<lparr>ps_start = Inr (), ps_get_device = Inr (), ps_query_sensors = Inr 2,
      ps_supports = Inr True, ps_set_option = (\<lambda>_. Inr ()), ps_stop = Inr ()\<rparr>"

subsection \<open>advanced\_diagnostic.py, method 3: pipeline attempts\<close>

text \<open>
  A candidate is a Python dict from stream names to booleans, read with
  \<open>config_settings.get(name, False)\<close>; it is kept as an association list in insertion
  order, which is also the order its \<open>repr\<close> prints.
\<close>

type_synonym settings = "(string \<times> bool) list"

definition settings_get :: "settings \<Rightarrow> string \<Rightarrow> bool" where
  "settings_get cs k = (case map_of cs k of None \<Rightarrow> False | Some b \<Rightarrow> b)"

definition repr_settings :: "settings \<Rightarrow> string" where
  "repr_settings cs =
     ''{'' @ join '', '' (map (\<lambda>(k, b). [CHR 0x27] @ k @ [CHR 0x27] @ '': '' @ show_bool b) cs)
     @ ''}''"


definition depth_640 :: stream_request where
  "depth_640 = \<lparr>kind = Depth, width = 640, height = 480, pixfmt = Z16, fps = 30\<rparr>"

definition color_640 :: stream_request where
  "color_640 = \<lparr>kind = Color, width = 640, height = 480, pixfmt = BGR8, fps = 30\<rparr>"

definition infrared_640 :: stream_request where
  "infrared_640 = \<lparr>kind = Infrared, width = 640, height = 480, pixfmt = Y8, fps = 30\<rparr>"

text \<open>
  The streams enabled on the \<open>rs.config()\<close> of one attempt when \<open>pipeline.start(config)\<close>
  is reached: the three \<open>if\<close> statements of lines 121--131, in their order.
\<close>

definition streams_of :: "settings \<Rightarrow> stream_request list" where
  "streams_of cs =
     (if settings_get cs ''depth'' then [depth_640] else []) @
     (if settings_get cs ''color'' then [color_640] else []) @
     (if settings_get cs ''infrared'' then [infrared_640] else [])"

text \<open>
  What the SDK answers during one attempt. \<open>as_stop\<close> answers the \<open>pipeline.stop()\<close>
  of line 150, \<open>as_stop_handler\<close> the one of line 162 in the exception handler.
\<close>

record attempt_sdk =
  as_enable_stream :: "stream_request \<Rightarrow> string + unit"
  as_start :: "stream_request list \<Rightarrow> string + unit"
  as_get_device :: "string + unit"
  as_name :: "string + string"
  as_serial :: "string + string"
  as_wait_for_frames :: "nat \<Rightarrow> string + nat"
  as_stop :: "string + unit"
  as_stop_handler :: "string + unit"

text \<open>
  The body of the \<open>try\<close> of lines 119--157; reaching its end is the \<open>break\<close>. (The two
  pictographs the source prints in front of SUCCESS and WORKING CONFIGURATION are left
  out of the texts.)
\<close>

definition attempt_try :: "attempt_sdk \<Rightarrow> nat \<Rightarrow> settings \<Rightarrow> unit io" where
  "attempt_try sdk i cs =
     io_seq
       [io_when (settings_get cs ''depth'')
          (io_seq [sdk_call (EnableStream i depth_640) (as_enable_stream sdk depth_640),
                   io_print ''  Enabled depth stream'']),
        io_when (settings_get cs ''color'')
          (io_seq [sdk_call (EnableStream i color_640) (as_enable_stream sdk color_640),
                   io_print ''  Enabled color stream'']),
        io_when (settings_get cs ''infrared'')
          (io_seq [sdk_call (EnableStream i infrared_640) (as_enable_stream sdk infrared_640),
                   io_print ''  Enabled infrared stream'']),
        io_print ''  Starting pipeline...'',
        sdk_call (Start i (streams_of cs)) (as_start sdk (streams_of cs)),
        io_print ''  Pipeline started successfully!'',
        sdk_call (GetDevice i) (as_get_device sdk),
        io_bind (sdk_call (GetInfo i ''name'') (as_name sdk))
          (\<lambda>n. io_print (''  Connected to: '' @ n)),
        io_bind (sdk_call (GetInfo i ''serial_number'') (as_serial sdk))
          (\<lambda>s. io_print (''  Serial number: '' @ s)),
        io_print ''  Waiting for frames...'',
        io_bind (sdk_call (WaitForFrames i (Some 5000)) (as_wait_for_frames sdk 5000))
          (\<lambda>n. io_print (''  Received '' @ show_nat n @ '' frames!'')),
        io_print ''  SUCCESS: This configuration works!'',
        sdk_call (Stop i) (as_stop sdk),
        io_print (CHR 0x0A # ''WORKING CONFIGURATION:''),
        io_print (''  Depth stream: '' @ show_bool (settings_get cs ''depth'')),
        io_print (''  Color stream: '' @ show_bool (settings_get cs ''color'')),
        io_print (''  Infrared stream: '' @ show_bool (settings_get cs ''infrared''))]"

text \<open>
  One iteration of the loop of lines 114--164, for the candidate at index \<open>i\<close>. The
  result is whether the loop is left by \<open>break\<close>.
\<close>

definition attempt :: "attempt_sdk \<Rightarrow> nat \<Rightarrow> settings \<Rightarrow> bool io" where
  "attempt sdk i cs =
     io_bind
       (io_seq
          [io_print (CHR 0x0A # ''Attempt '' @ show_nat (i + 1) @ '': Testing with ''
                     @ repr_settings cs),
           sdk_call (NewPipeline i) (Inr ()),
           sdk_call (NewConfig i) (Inr ())])
       (\<lambda>_. try_except
          (io_bind (attempt_try sdk i cs) (\<lambda>_. io_ret True))
          (\<lambda>e. io_bind
             (io_seq
                [io_print (''  Failed: '' @ e),
                 try_except_all (sdk_call (Stop i) (as_stop_handler sdk)) (io_ret ())])
             (\<lambda>_. io_ret False)))"

text \<open>
  The loop \<open>for i, config_settings in enumerate(stream_configs)\<close>, from index \<open>i\<close> over the
  remaining candidates; \<open>sdk j\<close> is what the SDK answers during the attempt at index \<open>j\<close>.
\<close>

fun pipeline_attempts :: "(nat \<Rightarrow> attempt_sdk) \<Rightarrow> nat \<Rightarrow> settings list \<Rightarrow> unit io" where
  "pipeline_attempts sdk i [] = io_ret ()"
| "pipeline_attempts sdk i (cs # rest) =
     io_bind (attempt (sdk i) i cs)
       (\<lambda>brk. if brk then io_ret () else pipeline_attempts sdk (Suc i) rest)"


text \<open>
  The SDK lets an attempt through: every call of the \<open>try\<close> body answers without
  raising, for the streams this candidate enables.
\<close>

definition attempt_ok :: "attempt_sdk \<Rightarrow> settings \<Rightarrow> bool" where
  "attempt_ok sdk cs \<longleftrightarrow>
     list_all (\<lambda>r. as_enable_stream sdk r = Inr ()) (streams_of cs) \<and>
     as_start sdk (streams_of cs) = Inr () \<and>
     as_get_device sdk = Inr () \<and>
     \<not> isl (as_name sdk) \<and>
     \<not> isl (as_serial sdk) \<and>
     \<not> isl (as_wait_for_frames sdk 5000) \<and>
     as_stop sdk = Inr ()"

text \<open>The line that declares a candidate the working configuration (line 153).\<close>

definition working_line :: event where
  "working_line = Print (CHR 0x0A # ''WORKING CONFIGURATION:'')"


fun started :: "event list \<Rightarrow> (nat \<times> stream_request list) list" where
  "started [] = []"
| "started (Start i rs # t) = (i, rs) # started t"
| "started (_ # t) = started t"

text \<open>Two SDKs for examples: one that answers every call, one with no device behind it.\<close>

definition sdk_good :: attempt_sdk where
  "sdk_good =
     \<lparr>as_enable_stream = (\<lambda>_. Inr ()), as_start = (\<lambda>_. Inr ()), as_get_device = Inr (),
      as_name = Inr ''Intel RealSense L515'', as_serial = Inr ''f0141140'',
      as_wait_for_frames = (\<lambda>_. Inr 2), as_stop = Inr (), as_stop_handler = Inr ()\<rparr>"

definition sdk_no_device :: attempt_sdk where
  "sdk_no_device =
     sdk_good\<lparr>as_start := (\<lambda>_. Inl ''No device connected''),
              as_stop_handler := Inl ''stop() cannot be called before start()''\<rparr>"

definition sdk_no_frames :: attempt_sdk where
  "sdk_no_frames =
     sdk_good\<lparr>as_wait_for_frames := (\<lambda>_. Inl ''Frame didn't arrive within 5000'')\<rparr>"


subsection \<open>camera\_diagnostic.py\<close>

text \<open>
  What an enumerated device answers: each \<open>get_info\<close>, \<open>query_sensors\<close> and
  \<open>get_stream_profiles\<close> may raise. The accessors of a stream profile only read fields.
\<close>

record profile =
  p_stream :: string
  p_is_video :: bool
  p_width :: nat
  p_height :: nat
  p_fps :: nat
  p_format :: string

record sensor =
  s_name :: "string + string"
  s_profiles :: "string + profile list"

record device =
  d_name :: "string + string"
  d_serial :: "string + string"
  d_product_line :: "string + string"
  d_firmware :: "string + string"
  d_usb_type :: "string + string"
  d_physical_port :: "string + string"
  d_sensors :: "string + sensor list"

text \<open>
  \<open>stream_types\<close>, a dict from stream name to a list of mode descriptions, in insertion
  order (lines 84--96): a name is entered with an empty list when first seen, and a video
  profile appends its description.
\<close>

fun add_mode :: "string \<Rightarrow> string \<Rightarrow> (string \<times> string list) list \<Rightarrow> (string \<times> string list) list" where
  "add_mode k v [] = []"
| "add_mode k v ((k', vs) # d) = (if k = k' then (k', vs @ [v]) # d else (k', vs) # add_mode k v d)"

fun group_profiles :: "profile list \<Rightarrow> (string \<times> string list) list \<Rightarrow> (string \<times> string list) list" where
  "group_profiles [] d = d"
| "group_profiles (p # ps) d =
     (let d1 = (if p_stream p \<notin> set (map fst d) then d @ [(p_stream p, [])] else d);
          d2 = (if p_is_video p then
                  add_mode (p_stream p)
                    (show_nat (p_width p) @ ''x'' @ show_nat (p_height p) @ '' '' @ p_format p
                     @ '' '' @ show_nat (p_fps p) @ ''fps'') d1
                else d1)
      in group_profiles ps d2)"

text \<open>Lines 99--105: the modes of one stream, the first three by name.\<close>

definition print_modes :: "string \<times> string list \<Rightarrow> unit io" where
  "print_modes = (\<lambda>(stream_name, details).
     io_seq
       ([io_print (''      '' @ stream_name @ '': '' @ show_nat (length details) @ '' modes'')]
        @ map (\<lambda>detail. io_print (''        - '' @ detail)) (take 3 details)
        @ [io_when (length details > 3)
             (io_print (''        - ... and '' @ show_nat (length details - 3)
                        @ '' more modes''))]))"

text \<open>Lines 76--105: one sensor \<open>j\<close> of device \<open>i\<close>.\<close>

definition report_sensor :: "nat \<Rightarrow> nat \<times> sensor \<Rightarrow> unit io" where
  "report_sensor i = (\<lambda>(j, s).
     io_seq
       [io_bind (sdk_call (SensorInfo i j ''name'') (s_name s))
          (\<lambda>n. io_print (''    Sensor '' @ show_nat (j + 1) @ '': '' @ n)),
        io_bind (sdk_call (GetStreamProfiles i j) (s_profiles s))
          (\<lambda>profiles.
             io_seq
               (io_print (''      Supported profiles: '' @ show_nat (length profiles))
                # map print_modes (group_profiles profiles [])))])"

text \<open>\<open>print(label + dev.get_info(field))\<close>: nothing is printed when the query raises.\<close>

definition info_line :: "nat \<Rightarrow> string \<Rightarrow> string \<Rightarrow> string + string \<Rightarrow> unit io" where
  "info_line i label field r =
     io_bind (sdk_call (GetInfo i field) r) (\<lambda>v. io_print (label @ v))"

text \<open>Lines 58--108: the body of the loop over the devices, with its \<open>try\<close>.\<close>

definition report_device :: "nat \<Rightarrow> device \<Rightarrow> unit io" where
  "report_device i dev =
     try_except
       (io_seq
          [io_print (CHR 0x0A # ''DEVICE '' @ show_nat (i + 1) @ '':''),
           info_line i ''  Name:          '' ''name'' (d_name dev),
           info_line i ''  Serial Number: '' ''serial_number'' (d_serial dev),
           info_line i ''  Product Line:  '' ''product_line'' (d_product_line dev),
           info_line i ''  Firmware:      '' ''firmware_version'' (d_firmware dev),
           info_line i ''  USB Type:      '' ''usb_type_descriptor'' (d_usb_type dev),
           try_except_all
             (info_line i ''  Physical Port: '' ''physical_port'' (d_physical_port dev))
             (io_ret ()),
           io_bind (sdk_call (QuerySensors i) (d_sensors dev))
             (\<lambda>sensors.
                io_seq
                  (io_print (CHR 0x0A # ''  Device has '' @ show_nat (length sensors)
                             @ '' sensors:'')
                   # map (report_sensor i) (zip [0..<length sensors] sensors)))])
       (\<lambda>e. io_print (''  Error querying device: '' @ e))"

text \<open>\<open>for i, dev in enumerate(devices)\<close>, from index \<open>i\<close>.\<close>

fun report_devices :: "nat \<Rightarrow> device list \<Rightarrow> unit io" where
  "report_devices i [] = io_ret ()"
| "report_devices i (dev # devs) =
     io_bind (report_device i dev) (\<lambda>_. report_devices (Suc i) devs)"

text \<open>A frame set as the scripts use it: the depth and color frames, when present.\<close>

record frame =
  f_width :: nat
  f_height :: nat

record frameset =
  depth_frame :: "frame option"
  color_frame :: "frame option"

text \<open>What the SDK answers during the stream test of lines 114--176.\<close>

record cam_sdk =
  cs_enable_device :: "string \<Rightarrow> string + unit"
  cs_enable_stream :: "stream_request \<Rightarrow> string + unit"
  cs_start :: "stream_request list \<Rightarrow> string + unit"
  cs_get_device :: "string + unit"
  cs_name :: "string + string"
  cs_serial :: "string + string"
  cs_wait_for_frames :: "nat \<Rightarrow> nat \<Rightarrow> string + frameset"
  cs_stop :: "string + unit"

text \<open>
  Line 158, the text for an incomplete frame set; Python tests the frame objects for
  truth, and an absent frame is falsy.
\<close>

definition missing_text :: "frame option \<Rightarrow> frame option \<Rightarrow> string" where
  "missing_text d c =
     ''  Warning: Missing '' @ (if d = None then ''depth'' else []) @ '' ''
     @ (if c = None then ''color'' else []) @ '' frame.''"

text \<open>Lines 144--163: one of the five frame waits, \<open>i\<close> counting from 0.\<close>

definition wait_frame :: "cam_sdk \<Rightarrow> nat \<Rightarrow> unit io" where
  "wait_frame sdk i =
     io_seq
       [io_print (''  Frame '' @ show_nat (i + 1) @ ''/5...''),
        try_except
          (io_bind (sdk_call (WaitForFrames 0 (Some 1000)) (cs_wait_for_frames sdk i 1000))
             (\<lambda>frames.
                case (depth_frame frames, color_frame frames) of
                  (Some depth, Some color) \<Rightarrow>
                    io_seq
                      [io_print ''  Success! Received depth and color frames.'',
                       io_when (i = 4)
                         (io_seq
                            [io_print (''  Depth frame: '' @ show_nat (f_width depth) @ ''x''
                                       @ show_nat (f_height depth)),
                             io_print (''  Color frame: '' @ show_nat (f_width color) @ ''x''
                                       @ show_nat (f_height color))])]
                | (d, c) \<Rightarrow> io_print (missing_text d c)))
          (\<lambda>e. io_print (''  Error waiting for frame: '' @ e)),
        sdk_call (Sleep 500) (Inr ())]"

text \<open>
  Lines 129--173: the \<open>try\<close> / \<open>except Exception\<close> / \<open>finally\<close> statement around the
  stream. The \<open>pipeline.stop()\<close> of the \<open>finally\<close> block is not guarded.
\<close>

definition stream_try :: "cam_sdk \<Rightarrow> unit io" where
  "stream_try sdk =
     try_finally
       (try_except
          (io_seq
             [sdk_call (EnableStream 0 depth_640) (cs_enable_stream sdk depth_640),
              sdk_call (EnableStream 0 color_640) (cs_enable_stream sdk color_640),
              io_print ''Starting stream...'',
              sdk_call (Start 0 [depth_640, color_640]) (cs_start sdk [depth_640, color_640]),
              io_print ''Pipeline started successfully!'',
              sdk_call (GetDevice 0) (cs_get_device sdk),
              io_bind (sdk_call (GetInfo 0 ''name'') (cs_name sdk)) (\<lambda>n.
                io_bind (sdk_call (GetInfo 0 ''serial_number'') (cs_serial sdk)) (\<lambda>s.
                  io_print (''Streaming from: '' @ n @ '' ('' @ s @ '')''))),
              io_print ''Waiting for frames...'',
              io_seq (map (wait_frame sdk) [0..<5]),
              io_print (CHR 0x0A # ''Stream test PASSED! Your camera is working correctly.'')])
          (\<lambda>e. io_print (''Failed to start stream: '' @ e)))
       (io_seq
          [io_print ''Stopping pipeline...'',
           sdk_call (Stop 0) (cs_stop sdk),
           io_print ''Pipeline stopped.''])"

text \<open>Lines 114--176: the stream test on the first device, with the enclosing \<open>try\<close>.\<close>

definition stream_test :: "cam_sdk \<Rightarrow> device \<Rightarrow> unit io" where
  "stream_test sdk dev0 =
     try_except
       (io_seq
          [io_bind (sdk_call (GetInfo 0 ''name'') (d_name dev0))
             (\<lambda>n. io_print (''Setting up pipeline for device: '' @ n)),
           sdk_call (NewPipeline 0) (Inr ()),
           sdk_call (NewConfig 0) (Inr ()),
           try_except_all
             (io_bind (sdk_call (GetInfo 0 ''serial_number'') (d_serial dev0)) (\<lambda>serial.
                io_seq
                  [sdk_call (EnableDevice 0 serial) (cs_enable_device sdk serial),
                   io_print (''Targeting specific device with serial: '' @ serial)]))
             (io_print ''Using default device (first available)''),
           stream_try sdk])
       (\<lambda>e. io_print (''Error during stream test: '' @ e))"

text \<open>The host and the SDK as \<open>camera_diagnostic.main\<close> sees them.\<close>

record cam_env =
  ce_platform :: string
  ce_python_version :: string
  ce_sdk_version :: "string + string"
  ce_devices :: "string + device list"
  ce_sdk :: cam_sdk
  ce_input :: "string + string"

definition get_system_info :: "cam_env \<Rightarrow> (string \<times> string) list" where
  "get_system_info env =
     [(''Platform'', ce_platform env),
      (''Python Version'', ce_python_version env),
      (''RealSense SDK'', case ce_sdk_version env of Inl _ \<Rightarrow> ''Unknown'' | Inr v \<Rightarrow> v)]"

definition camera_main :: "cam_env \<Rightarrow> unit io" where
  "camera_main env =
     io_bind
       (io_seq
          ([io_print (CHR 0x0A # replicate 50 CHR ''=''),
            io_print ''Intel RealSense Camera Diagnostic Tool'',
            io_print (replicate 50 CHR ''='' @ [CHR 0x0A]),
            io_print ''System Information:'']
           @ map (\<lambda>(key, v). io_print (''  '' @ key @ '': '' @ v)) (get_system_info env)
           @ [io_print [],
              io_print ''Looking for RealSense devices...'',
              sdk_call NewContext (Inr ())]))
       (\<lambda>_. io_bind (sdk_call QueryDevices (ce_devices env)) (\<lambda>devices.
          if length devices = 0 then
            io_seq
              [io_print (''ERROR: No Intel RealSense devices detected!'' @ [CHR 0x0A]),
               io_print ''Troubleshooting steps:'',
               io_print ''1. Check that the camera is properly connected via USB'',
               io_print ''2. Try a different USB port (preferably USB 3.0)'',
               io_print ''3. Restart your computer'',
               io_print ''4. Reinstall the Intel RealSense SDK'',
               io_print ''5. Check Windows Device Manager for issues with the camera'']
          else
            io_seq
              [io_print (CHR 0x0A # ''Success! Found '' @ show_nat (length devices)
                         @ '' RealSense device(s):''),
               report_devices 0 devices,
               io_print (CHR 0x0A # replicate 50 CHR ''=''),
               io_print ''Attempting to start a test stream...'',
               stream_test (ce_sdk env) (devices ! 0),
               io_print (CHR 0x0A # replicate 50 CHR ''=''),
               io_print ''Diagnostic complete'',
               io_print (replicate 50 CHR ''='' @ [CHR 0x0A]),
               io_bind (sdk_call (Input ''Press Enter to exit...'') (ce_input env))
                 (\<lambda>_. io_ret ())]))"

text \<open>The calls a trace makes, without what it prints.\<close>

fun is_print :: "event \<Rightarrow> bool" where
  "is_print (Print s) = True"
| "is_print _ = False"

definition sdk_calls :: "event list \<Rightarrow> event list" where
  "sdk_calls t = filter (\<lambda>e. \<not> is_print e) t"

text \<open>Devices and SDK answers for examples of camera\_diagnostic.py.\<close>

definition dev_good :: device where
  "dev_good =
     \<lparr>d_name = Inr ''Intel RealSense L515'', d_serial = Inr ''f0141140'',
      d_product_line = Inr ''L500'', d_firmware = Inr ''1.5.8.1'', d_usb_type = Inr ''3.2'',
      d_physical_port = Inr ''usb-1'', d_sensors = Inr []\<rparr>"

definition dev_broken :: device where
  "dev_broken = dev_good\<lparr>d_serial := Inl ''device is busy''\<rparr>"

text \<open>
  A camera that cannot be started. The SDK refuses \<open>stop\<close> on a pipeline that was never
  started.
\<close>

definition cam_start_fails :: cam_sdk where
  "cam_start_fails =
     \<lparr>cs_enable_device = (\<lambda>_. Inr ()), cs_enable_stream = (\<lambda>_. Inr ()),
      cs_start = (\<lambda>_. Inl ''No device connected''), cs_get_device = Inr (),
      cs_name = Inr ''Intel RealSense L515'', cs_serial = Inr ''f0141140'',
      cs_wait_for_frames = (\<lambda>_ _. Inl ''Frame did not arrive in time''),
      cs_stop = Inl ''stop() cannot be called before start()''\<rparr>"

definition env_no_device :: cam_env where
  "env_no_device =
     \<lparr>ce_platform = ''Windows-10'', ce_python_version = ''3.9.7'',
      ce_sdk_version = Inl ''no attribute'', ce_devices = Inr [],
      ce_sdk = cam_start_fails, ce_input = Inr []\<rparr>"

subsection \<open>photo1.py, lines 13--39: looking for a camera\<close>

text \<open>
  What the SDK answers while photo1.py looks for a camera: \<open>ctx.query_devices()\<close>, the
  property \<open>ctx.devices\<close>, and \<open>config.enable_device\<close> for a serial number.
\<close>

record photo_env =
  ph_devices :: "string + device list"
  ph_ctx_devices :: "string + device list"
  ph_enable_device :: "string \<Rightarrow> string + unit"

text \<open>Line 28, for the camera at index \<open>k\<close> of \<open>ctx.devices\<close>.\<close>

definition camera_line :: "nat \<times> device \<Rightarrow> unit io" where
  "camera_line = (\<lambda>(k, c).
     io_bind (sdk_call (GetInfo k ''name'') (d_name c)) (\<lambda>n.
       io_bind (sdk_call (GetInfo k ''serial_number'') (d_serial c)) (\<lambda>s.
         io_print ('' - '' @ n @ '' (Serial: '' @ s @ '')''))))"

text \<open>
  Lines 13--39. With no device enumerated the script goes on to ``alternative methods'':
  it enables a device by serial number, a second one if the first is refused.
\<close>

definition photo1_detect :: "photo_env \<Rightarrow> unit io" where
  "photo1_detect env =
     io_seq
       [io_print ''Searching for RealSense cameras...'',
        sdk_call (NewPipeline 0) (Inr ()),
        sdk_call (NewConfig 0) (Inr ()),
        sdk_call NewContext (Inr ()),
        io_bind (sdk_call QueryDevices (ph_devices env)) (\<lambda>devices.
          io_when (length devices = 0)
            (io_seq
               [io_print ''No RealSense devices detected! Trying alternative methods...'',
                io_print ''System detected cameras:'',
                io_bind (sdk_call ContextDevices (ph_ctx_devices env)) (\<lambda>cs.
                  io_seq (map camera_line (zip [0..<length cs] cs))),
                try_except
                  (sdk_call (EnableDevice 0 ''6&1758D7C'') (ph_enable_device env ''6&1758D7C''))
                  (\<lambda>e1.
                     try_except
                       (sdk_call (EnableDevice 0 ''6&1CF34A1'')
                          (ph_enable_device env ''6&1CF34A1''))
                       (\<lambda>e2. io_print (''Could not enable specific device: '' @ e1 @ '', ''
                                         @ e2)))]))]"

text \<open>No camera attached; \<open>enable_device\<close> only records the serial number and answers.\<close>

definition photo_no_device :: photo_env where
  "photo_no_device =
     \<lparr>ph_devices = Inr [], ph_ctx_devices = Inr [], ph_enable_device = (\<lambda>_. Inr ())\<rparr>"

subsection \<open>direct\_camera\_access.py, lines 78--107: waiting for a pair of frames\<close>

text \<open>The UTF-8 bytes of the two pictographs the script prints.\<close>

definition check_mark :: string where
  "check_mark = [CHR 0xE2, CHR 0x9C, CHR 0x85]"

definition cross_mark :: string where
  "cross_mark = [CHR 0xE2, CHR 0x9D, CHR 0x8C]"

text \<open>
  What the SDK and the host answer during the loop; the waits and the clock are indexed by
  the number of the attempt, counted from 1. \<open>da_sep\<close> is the
  separator of \<open>os.path.join\<close>.
\<close>

record dca_sdk =
  da_wait_for_frames :: "nat \<Rightarrow> string + frameset"
  da_time :: "nat \<Rightarrow> nat"
  da_sep :: string
  da_imwrite :: "string + unit"
  da_stop :: "string + unit"

definition max_tries :: nat where
  "max_tries = 5"

text \<open>
  The inner \<open>try\<close> of lines 84--105, on the attempt numbered \<open>tries\<close> (after
  \<open>tries += 1\<close>). The result is whether \<open>main\<close> returned \<open>True\<close> from inside it (line
  101). Everything the \<open>try\<close> raises, also from \<open>cv2.imwrite\<close> or \<open>pipeline.stop()\<close>,
  is reported by the handler.
\<close>

definition frames_attempt :: "dca_sdk \<Rightarrow> nat \<Rightarrow> bool io" where
  "frames_attempt sdk tries =
     try_except
       (io_bind (sdk_call (WaitForFrames 0 (Some 5000)) (da_wait_for_frames sdk tries))
          (\<lambda>frames.
             case (depth_frame frames, color_frame frames) of
               (Some depth, Some color) \<Rightarrow>
                 (let filename = ''saved_images'' @ da_sep sdk @ ''test_connection_''
                                 @ show_nat (da_time sdk tries) @ ''.jpg''
                  in io_bind
                       (io_seq
                          [io_print ''Successfully received frames!'',
                           sdk_call (Imwrite filename) (da_imwrite sdk),
                           io_print (''Saved test image to '' @ filename),
                           io_print (CHR 0x0A # check_mark
                                     @ '' CONNECTION SUCCESSFUL! Your camera is working!''),
                           sdk_call (Stop 0) (da_stop sdk)])
                       (\<lambda>_. io_ret True))
             | (d, c) \<Rightarrow>
                 io_bind (io_print ''Missing frames, retrying...'') (\<lambda>_. io_ret False)))
       (\<lambda>e. io_bind (io_print (''Error waiting for frames: '' @ e)) (\<lambda>_. io_ret False))"

text \<open>
  The loop \<open>while tries < max_tries\<close> of lines 80--107, entered with \<open>tries\<close>: an
  attempt that did not return is followed by \<open>time.sleep(1)\<close> and the next attempt. The
  result \<open>False\<close> means the loop ran out.
\<close>

function frames_loop :: "dca_sdk \<Rightarrow> nat \<Rightarrow> bool io" where
  "frames_loop sdk tries =
     (if tries < max_tries then
        io_bind (io_print (''Attempt '' @ show_nat (tries + 1) @ ''/'' @ show_nat max_tries
                           @ ''...'')) (\<lambda>_.
        io_bind (frames_attempt sdk (tries + 1)) (\<lambda>returned.
          if returned then io_ret True
          else io_bind (sdk_call (Sleep 1000) (Inr ()))
                 (\<lambda>_. frames_loop sdk (tries + 1))))
      else io_ret False)"
  by pat_completeness auto
termination
  by (relation "measure (\<lambda>(sdk, tries). max_tries - tries)") auto

declare frames_loop.simps [simp del]

text \<open>Lines 78--110: the loop from \<open>tries = 0\<close>, and what follows when it runs out.\<close>

definition wait_for_pair :: "dca_sdk \<Rightarrow> bool io" where
  "wait_for_pair sdk =
     io_bind (frames_loop sdk 0) (\<lambda>returned.
       if returned then io_ret True
       else io_bind
              (io_seq
                 [io_print (cross_mark @ '' Failed to get frames after multiple attempts''),
                  sdk_call (Stop 0) (da_stop sdk)])
              (\<lambda>_. io_ret False))"

text \<open>A depth frame arrives on every attempt, a color frame never.\<close>

definition dca_no_color :: dca_sdk where
  "dca_no_color =
     \<lparr>da_wait_for_frames =
        (\<lambda>_. Inr \<lparr>depth_frame = Some \<lparr>f_width = 640, f_height = 480\<rparr>, color_frame = None\<rparr>),
      da_time = (\<lambda>_. 1700000000), da_sep = ''/'', da_imwrite = Inr (), da_stop = Inr ()\<rparr>"

subsection \<open>black\_white.py, lines 82--91: the first pair of frames\<close>

text \<open>
  The inner \<open>try\<close> of lines 82--91, given what \<open>pipeline.wait_for_frames(5000)\<close> answers.
  An incomplete frame set raises RuntimeError inside the \<open>try\<close>; the handler reports
  whatever was raised and raises RuntimeError again. Around it there is only the
  \<open>finally\<close> of line 144, so that exception ends the script.
\<close>

definition bw_initial :: "string + frameset \<Rightarrow> (frame \<times> frame) io" where
  "bw_initial r =
     try_except
       (io_bind (sdk_call (WaitForFrames 0 (Some 5000)) r) (\<lambda>frames.
          case (depth_frame frames, color_frame frames) of
            (Some depth, Some color) \<Rightarrow>
              io_bind (io_print ''Successfully retrieved frames from camera!'')
                (\<lambda>_. io_ret (depth, color))
          | (d, c) \<Rightarrow> io_raise (Exception ''Could not get frames from the camera'')))
       (\<lambda>e. io_bind (io_print (''Error getting frames: '' @ e))
              (\<lambda>_. io_raise (Exception
                 ''Failed to get frames from the camera. Check connections and try again.'')))"

subsection \<open>video\_viewer\_with\_photo\_saver.py\<close>

text \<open>
  What the SDK, OpenCV and the file system answer. The frame waits, the key read by
  \<open>cv2.waitKey(1)\<close>, the tick count and the image writes are indexed by the iteration of
  the display loop. \<open>os.path.exists\<close> does not raise.
\<close>

record vv_env =
  vv_resolve :: "string + unit"
  vv_get_device :: "string + unit"
  vv_product_line :: "string + string"
  vv_sensors :: "string + (string + string) list"
  vv_enable_stream :: "stream_request \<Rightarrow> string + unit"
  vv_start :: "stream_request list \<Rightarrow> string + unit"
  vv_exists :: bool
  vv_makedirs :: "string + unit"
  vv_first :: "string + frameset"
  vv_scale_bar :: "string + unit"
  vv_frames :: "nat \<Rightarrow> string + frameset"
  vv_render :: "nat \<Rightarrow> string + unit"
  vv_key :: "nat \<Rightarrow> int"
  vv_tick :: "nat \<Rightarrow> nat"
  vv_imwrite :: "nat \<Rightarrow> string + unit"
  vv_stop :: "string + unit"
  vv_sep :: string

text \<open>Lines 23--27: the search for the sensor named RGB Camera, from sensor \<open>j\<close>.\<close>

fun find_rgb :: "nat \<Rightarrow> (string + string) list \<Rightarrow> bool io" where
  "find_rgb j [] = io_ret False"
| "find_rgb j (r # rs) =
     io_bind (sdk_call (SensorInfo 0 j ''name'') r) (\<lambda>n.
       if n = ''RGB Camera'' then io_ret True else find_rgb (Suc j) rs)"

text \<open>
  Lines 14--41, everything before the \<open>try\<close> statement: the pipeline is started on line
  36, and the directory for the images is created after that, outside the \<open>try\<close>.
\<close>

definition vv_setup :: "vv_env \<Rightarrow> unit io" where
  "vv_setup env =
     io_seq
       [sdk_call (NewPipeline 0) (Inr ()),
        sdk_call (NewConfig 0) (Inr ()),
        sdk_call (Resolve 0) (vv_resolve env),
        sdk_call (GetDevice 0) (vv_get_device env),
        io_bind (sdk_call (GetInfo 0 ''product_line'') (vv_product_line env))
          (\<lambda>_. io_ret ()),
        io_bind (sdk_call (QuerySensors 0) (vv_sensors env)) (\<lambda>sensors.
          io_bind (find_rgb 0 sensors) (\<lambda>found_rgb.
            io_when (\<not> found_rgb)
              (io_bind (io_print ''The demo requires Depth camera with Color sensor'')
                 (\<lambda>_. io_raise (SystemExit 0))))),
        sdk_call (EnableStream 0 depth_640) (vv_enable_stream env depth_640),
        sdk_call (EnableStream 0 color_640) (vv_enable_stream env color_640),
        sdk_call (Start 0 [depth_640, color_640]) (vv_start env [depth_640, color_640]),
        io_bind (sdk_call (PathExists ''saved_images'') (Inr (vv_exists env))) (\<lambda>there.
          io_when (\<not> there)
            (sdk_call (MakeDirs ''saved_images'') (vv_makedirs env)))]"

text \<open>
  A script that may still be running: \<open>None\<close> when the iterations allowed are used up
  before the script ends. \<open>io_then\<close> sequences a step with such a rest.
\<close>

definition io_then :: "'a io \<Rightarrow> ('a \<Rightarrow> 'b io option) \<Rightarrow> 'b io option" where
  "io_then m f =
     (case m of
        (t, Inl e) \<Rightarrow> Some (t, Inl e)
      | (t, Inr x) \<Rightarrow>
          (case f x of None \<Rightarrow> None | Some (t', r) \<Rightarrow> Some (t @ t', r)))"

text \<open>
  The loop \<open>while True\<close> of lines 80--117 from iteration \<open>k\<close>, run for at most \<open>n\<close>
  iterations. \<open>Render\<close> stands for the array and window calls of lines 89--107.
\<close>

fun vv_loop :: "vv_env \<Rightarrow> nat \<Rightarrow> nat \<Rightarrow> unit io option" where
  "vv_loop env 0 k = None"
| "vv_loop env (Suc n) k =
     io_then (sdk_call (WaitForFrames 0 None) (vv_frames env k)) (\<lambda>frames.
       if depth_frame frames = None \<or> color_frame frames = None then vv_loop env n (Suc k)
       else
         io_then (sdk_call Render (vv_render env k)) (\<lambda>_.
         io_then (sdk_call (WaitKey 1) (Inr (vv_key env k))) (\<lambda>key.
           if key AND 255 = 115 then
             (let filename = ''saved_images'' @ vv_sep env @ ''image_''
                             @ show_nat (vv_tick env k) @ ''.png''
              in io_then
                   (io_seq
                      [sdk_call (Imwrite filename) (vv_imwrite env k),
                       io_print (''Image saved to '' @ filename)])
                   (\<lambda>_. vv_loop env n (Suc k)))
           else if key AND 255 = 113 \<or> key = 27 then
             Some (sdk_call DestroyAllWindows (Inr ()))
           else vv_loop env n (Suc k))))"

text \<open>
  Lines 61--117, the body of the \<open>try\<close>: the first pair of frames, the scale bar made
  from its height, and the display loop.
\<close>

definition vv_try :: "vv_env \<Rightarrow> nat \<Rightarrow> unit io option" where
  "vv_try env n =
     io_then (sdk_call (WaitForFrames 0 None) (vv_first env)) (\<lambda>frames.
       case (depth_frame frames, color_frame frames) of
         (Some depth, Some color) \<Rightarrow>
           io_then (sdk_call (ScaleBar (f_height depth)) (vv_scale_bar env))
             (\<lambda>_. vv_loop env n 0)
       | (d, c) \<Rightarrow> Some (io_raise (Exception ''Could not get frames from the camera'')))"

text \<open>
  The whole script: what precedes the \<open>try\<close>, then the \<open>try\<close> with its
  \<open>finally: pipeline.stop()\<close>.
\<close>

definition vv_script :: "vv_env \<Rightarrow> nat \<Rightarrow> unit io option" where
  "vv_script env n =
     io_then (vv_setup env) (\<lambda>_.
       map_option (\<lambda>m. try_finally m (sdk_call (Stop 0) (vv_stop env))) (vv_try env n))"

text \<open>
  A working camera, started from a directory in which \<open>saved_images\<close> does not exist and
  cannot be created.
\<close>

definition vv_read_only :: vv_env where
  "vv_read_only =
     \<lparr>vv_resolve = Inr (), vv_get_device = Inr (), vv_product_line = Inr ''L500'',
      vv_sensors = Inr [Inr ''L500 Depth Sensor'', Inr ''RGB Camera'', Inr ''Motion Module''],
      vv_enable_stream = (\<lambda>_. Inr ()), vv_start = (\<lambda>_. Inr ()),
      vv_exists = False,
      vv_makedirs = Inl ''[Errno 13] Permission denied: saved_images'',
      vv_first =
        Inr \<lparr>depth_frame = Some \<lparr>f_width = 640, f_height = 480\<rparr>,
             color_frame = Some \<lparr>f_width = 640, f_height = 480\<rparr>\<rparr>,
      vv_scale_bar = Inr (),
      vv_frames =
        (\<lambda>_. Inr \<lparr>depth_frame = Some \<lparr>f_width = 640, f_height = 480\<rparr>,
                   color_frame = Some \<lparr>f_width = 640, f_height = 480\<rparr>\<rparr>),
      vv_render = (\<lambda>_. Inr ()), vv_key = (\<lambda>_. 113), vv_tick = (\<lambda>k. k),
      vv_imwrite = (\<lambda>_. Inr ()), vv_stop = Inr (), vv_sep = ''/''\<rparr>"

section \<open>Properties\<close>

subsection \<open>The script monad\<close>

lemma io_bind_ret [simp]: "io_bind (io_ret x) f = f x"
  by (simp add: io_bind_def io_ret_def split: prod.splits)

lemma fst_io_ret [simp]: "fst (io_ret x) = []"
  by (simp add: io_ret_def)

lemma snd_io_ret [simp]: "snd (io_ret x) = Inr x"
  by (simp add: io_ret_def)

lemma io_bind_print [simp]:
  "io_bind (io_print s) f = (Print s # fst (f ()), snd (f ()))"
  by (simp add: io_bind_def io_print_def split: prod.splits)

lemma snd_io_bind:
  "snd (io_bind m f) = (case snd m of Inl e \<Rightarrow> Inl e | Inr x \<Rightarrow> snd (f x))"
  by (cases m) (auto simp: io_bind_def split: sum.splits prod.splits)

lemma fst_io_bind:
  "fst (io_bind m f) = (case snd m of Inl e \<Rightarrow> fst m | Inr x \<Rightarrow> fst m @ fst (f x))"
  by (cases m) (auto simp: io_bind_def split: sum.splits prod.splits)

lemma snd_io_print [simp]: "snd (io_print s) = Inr ()"
  by (simp add: io_print_def)

lemma fst_io_print [simp]: "fst (io_print s) = [Print s]"
  by (simp add: io_print_def)

lemma fst_sdk_call [simp]: "fst (sdk_call ev r) = [ev]"
  by (simp add: sdk_call_def)

lemma snd_sdk_call_ok [simp]: "snd (sdk_call ev r) = Inr x \<longleftrightarrow> r = Inr x"
  by (simp add: sdk_call_def split: sum.splits)

lemma snd_sdk_call_exit [simp]: "snd (sdk_call ev r) \<noteq> Inl (SystemExit n)"
  by (simp add: sdk_call_def split: sum.splits)

lemma io_seq_ok_iff: "snd (io_seq ms) = Inr () \<longleftrightarrow> (\<forall>m\<in>set ms. snd m = Inr ())"
  by (induction ms) (auto simp: snd_io_bind split: sum.splits)

lemma io_seq_no_exit:
  "(\<forall>m\<in>set ms. snd m \<noteq> Inl (SystemExit n)) \<Longrightarrow> snd (io_seq ms) \<noteq> Inl (SystemExit n)"
  by (induction ms) (auto simp: snd_io_bind split: sum.splits)



lemma snd_io_when: "snd (io_when b m) = Inr () \<longleftrightarrow> (b \<longrightarrow> snd m = Inr ())"
  by (simp add: io_when_def)

lemma snd_bind_call_print:
  "snd (io_bind (sdk_call ev r) (\<lambda>x. io_print (g x))) = Inr () \<longleftrightarrow> \<not> isl r"
  by (cases r) (auto simp: snd_io_bind sdk_call_def)


subsection \<open>The preset entry point\<close>

text \<open>
  C8. The preset entry point checks its one positional argument against the four preset
  names. When the argument is missing, when there are extra arguments, or when the
  argument is not one of the names, it prints the two usage lines and returns normally
  (no exception, hence no distinct exit status), and no pipeline or configuration is
  created or started: the trace holds the two prints and nothing else. (\<open>sys.argv\<close>
  always holds the script's name, so it is not empty.)
\<close>

theorem preset_main_usage:
  assumes "argv \<noteq> []"
    and "length argv \<noteq> 2 \<or>
         argv ! 1 \<notin> {''no_ambient_light'', ''low_ambient_light'', ''max_range'', ''short_range''}"
  shows "preset_main sdk argv =
           ([Print (''Usage: '' @ argv ! 0 @ '' <preset>''),
             Print ''Preset options: no_ambient_light, low_ambient_light, max_range, short_range''],
            Inr ())"
proof -
  have names: "set (map fst presets) =
      {''no_ambient_light'', ''low_ambient_light'', ''max_range'', ''short_range''}"
    by (simp add: presets_def)
  have joined: "join '', '' (map fst presets) =
      ''no_ambient_light, low_ambient_light, max_range, short_range''"
    by (simp add: presets_def)
  have idx: "py_index argv 0 = io_ret (argv ! 0)"
    using assms(1) by (simp add: py_index_def)
  have "length argv \<noteq> 2 \<or> argv ! 1 \<notin> set (map fst presets)"
    using assms(2) names by simp
  then have "preset_main sdk argv =
      io_bind (py_index argv 0) (\<lambda>prog.
          io_seq
            [io_print (''Usage: '' @ prog @ '' <preset>''),
             io_print (''Preset options: '' @ join '', '' (map fst presets))])"
    unfolding preset_main_def by (simp only: if_True)
  then show ?thesis
    by (simp add: idx joined)
qed

theorem preset_main_usage_witness:
  "preset_main preset_sdk_ok [''realsense_preset.py'', ''bright''] =
     ([Print ''Usage: realsense_preset.py <preset>'',
       Print ''Preset options: no_ambient_light, low_ambient_light, max_range, short_range''],
      Inr ())"
  using preset_main_usage [of "[''realsense_preset.py'', ''bright'']" preset_sdk_ok]
  by simp

subsection \<open>The pipeline attempts of advanced\_diagnostic.py\<close>

lemma attempt_try_ok: "snd (attempt_try sdk i cs) = Inr () \<longleftrightarrow> attempt_ok sdk cs"
  unfolding attempt_try_def attempt_ok_def
  by (simp add: io_seq_ok_iff snd_io_when snd_bind_call_print streams_of_def
        del: io_seq.simps io_bind_print)

lemma snd_io_when_exit:
  "snd m \<noteq> Inl (SystemExit n) \<Longrightarrow> snd (io_when b m) \<noteq> Inl (SystemExit n)"
  by (simp add: io_when_def)

lemma snd_bind_call_print_exit:
  "snd (io_bind (sdk_call ev r) (\<lambda>x. io_print (g x))) \<noteq> Inl (SystemExit n)"
  by (cases r) (auto simp: snd_io_bind sdk_call_def)

lemma attempt_try_no_exit: "snd (attempt_try sdk i cs) \<noteq> Inl (SystemExit n)"
  unfolding attempt_try_def
  by (rule io_seq_no_exit)
     (simp add: snd_io_when_exit io_seq_no_exit snd_bind_call_print_exit
        del: io_seq.simps io_bind_print)




lemma attempt_header:
  "io_seq [io_print s, sdk_call (NewPipeline i) (Inr ()), sdk_call (NewConfig i) (Inr ())] =
     ([Print s, NewPipeline i, NewConfig i], Inr ())"
  by (simp add: io_bind_def sdk_call_def io_ret_def io_print_def del: io_bind_print)

lemma attempt_cases:
  obtains (ok) "attempt_ok sdk cs"
      "attempt sdk i cs =
         (Print (CHR 0x0A # ''Attempt '' @ show_nat (i + 1) @ '': Testing with '' @ repr_settings cs)
            # NewPipeline i # NewConfig i # fst (attempt_try sdk i cs), Inr True)"
  | (failed) msg where "\<not> attempt_ok sdk cs"
      "attempt sdk i cs =
         (Print (CHR 0x0A # ''Attempt '' @ show_nat (i + 1) @ '': Testing with '' @ repr_settings cs)
            # NewPipeline i # NewConfig i # fst (attempt_try sdk i cs)
            @ [Print (''  Failed: '' @ msg), Stop i], Inr False)"
proof (cases "snd (attempt_try sdk i cs)")
  case (Inr u)
  then have good: "attempt_ok sdk cs" using attempt_try_ok [of sdk i cs] by simp
  obtain t where t: "attempt_try sdk i cs = (t, Inr ())"
    using Inr by (cases "attempt_try sdk i cs") auto
  show ?thesis
    by (rule ok [OF good])
       (simp add: attempt_def attempt_header t io_bind_def try_except_def io_ret_def
          del: io_seq.simps)
next
  case (Inl e)
  then have nok: "\<not> attempt_ok sdk cs" using attempt_try_ok [of sdk i cs] by simp
  from Inl attempt_try_no_exit [of sdk i cs] obtain msg where e: "e = Exception msg"
    by (cases e) auto
  obtain t where t: "attempt_try sdk i cs = (t, Inl (Exception msg))"
    using Inl e by (cases "attempt_try sdk i cs") auto
  show ?thesis
    by (rule failed [OF nok, of msg])
       (cases "as_stop_handler sdk";
        simp add: attempt_def attempt_header t io_bind_def try_except_def io_ret_def
          try_except_all_def sdk_call_def io_print_def)
qed


lemma pipeline_attempts_failed:
  "\<not> attempt_ok (sdk i) c \<Longrightarrow>
   pipeline_attempts sdk i (c # rest) =
     (fst (attempt (sdk i) i c) @ fst (pipeline_attempts sdk (Suc i) rest),
      snd (pipeline_attempts sdk (Suc i) rest))"
  by (cases rule: attempt_cases [of "sdk i" c i])
     (simp_all add: io_bind_def split: prod.splits)























lemma io_seq_fail_prefix:
  "snd (io_seq xs) \<noteq> Inr () \<Longrightarrow> fst (io_seq (xs @ ys)) = fst (io_seq xs)"
  by (induction xs) (auto simp: fst_io_bind snd_io_bind split: sum.splits)

lemma io_seq_ok_append:
  "(\<forall>m\<in>set ys. snd m = Inr ()) \<Longrightarrow> snd (io_seq (xs @ ys)) = snd (io_seq xs)"
  by (induction xs) (auto simp: snd_io_bind io_seq_ok_iff split: sum.splits)

lemma set_fst_io_seq: "set (fst (io_seq ms)) \<subseteq> (\<Union>m\<in>set ms. set (fst m))"
  by (induction ms) (auto simp: fst_io_bind split: sum.splits)

lemma set_fst_io_seq_ok:
  "(\<forall>m\<in>set ms. snd m = Inr ()) \<Longrightarrow> set (fst (io_seq ms)) = (\<Union>m\<in>set ms. set (fst m))"
  by (induction ms) (auto simp: fst_io_bind split: sum.splits)

lemma set_fst_io_when: "set (fst (io_when b m)) \<subseteq> set (fst m)"
  by (simp add: io_when_def)

lemma set_fst_bind_call_print:
  "set (fst (io_bind (sdk_call ev r) (\<lambda>x. io_print (g x)))) \<subseteq> insert ev (range (\<lambda>x. Print (g x)))"
  by (cases r) (auto simp: fst_io_bind sdk_call_def)

lemma set_fst_when_call_print:
  "set (fst (io_when b (io_seq [sdk_call ev r, io_print s]))) \<subseteq> {ev, Print s}"
  by (cases r) (auto simp: io_when_def io_bind_def sdk_call_def io_print_def io_ret_def)


lemma working_not_in_failed_try:
  assumes "\<not> attempt_ok sdk cs"
  shows "working_line \<notin> set (fst (attempt_try sdk i cs))"
proof -
  define xs where "xs =
       [io_when (settings_get cs ''depth'')
          (io_seq [sdk_call (EnableStream i depth_640) (as_enable_stream sdk depth_640),
                   io_print ''  Enabled depth stream'']),
        io_when (settings_get cs ''color'')
          (io_seq [sdk_call (EnableStream i color_640) (as_enable_stream sdk color_640),
                   io_print ''  Enabled color stream'']),
        io_when (settings_get cs ''infrared'')
          (io_seq [sdk_call (EnableStream i infrared_640) (as_enable_stream sdk infrared_640),
                   io_print ''  Enabled infrared stream'']),
        io_print ''  Starting pipeline...'',
        sdk_call (Start i (streams_of cs)) (as_start sdk (streams_of cs)),
        io_print ''  Pipeline started successfully!'',
        sdk_call (GetDevice i) (as_get_device sdk),
        io_bind (sdk_call (GetInfo i ''name'') (as_name sdk))
          (\<lambda>n. io_print (''  Connected to: '' @ n)),
        io_bind (sdk_call (GetInfo i ''serial_number'') (as_serial sdk))
          (\<lambda>s. io_print (''  Serial number: '' @ s)),
        io_print ''  Waiting for frames...'',
        io_bind (sdk_call (WaitForFrames i (Some 5000)) (as_wait_for_frames sdk 5000))
          (\<lambda>n. io_print (''  Received '' @ show_nat n @ '' frames!'')),
        io_print ''  SUCCESS: This configuration works!'',
        sdk_call (Stop i) (as_stop sdk)]"
  define ys where "ys =
       [io_print (CHR 0x0A # ''WORKING CONFIGURATION:''),
        io_print (''  Depth stream: '' @ show_bool (settings_get cs ''depth'')),
        io_print (''  Color stream: '' @ show_bool (settings_get cs ''color'')),
        io_print (''  Infrared stream: '' @ show_bool (settings_get cs ''infrared''))]"
  have split: "attempt_try sdk i cs = io_seq (xs @ ys)"
    by (simp add: attempt_try_def xs_def ys_def del: io_seq.simps)
  have ys_ok: "\<forall>m\<in>set ys. snd m = Inr ()"
    by (simp add: ys_def)
  have "snd (io_seq (xs @ ys)) \<noteq> Inr ()"
    using assms attempt_try_ok [of sdk i cs] split by simp
  then have xs_fail: "snd (io_seq xs) \<noteq> Inr ()"
    using io_seq_ok_append [OF ys_ok, of xs] by simp
  have "fst (attempt_try sdk i cs) = fst (io_seq xs)"
    using io_seq_fail_prefix [OF xs_fail, of ys] split by simp
  moreover have "working_line \<notin> (\<Union>m\<in>set xs. set (fst m))"
  proof -
    have w: "working_line \<notin>
        set (fst (io_when b (io_seq [sdk_call (EnableStream j r) (as_enable_stream sdk r),
                                     io_print (CHR '' '' # s)])))" for b j r s
      using set_fst_when_call_print [of b "EnableStream j r" "as_enable_stream sdk r" "CHR '' '' # s"]
      by (auto simp: working_line_def simp del: io_seq.simps)
    have c: "ev \<noteq> working_line \<Longrightarrow> working_line \<notin>
        set (fst (io_bind (sdk_call ev r) (\<lambda>x. io_print (CHR '' '' # g x))))"
      for ev and r :: "string + 'a" and g
      using set_fst_bind_call_print [of ev r "\<lambda>x. CHR '' '' # g x"]
      by (auto simp: working_line_def)
    have d: "GetInfo j k \<noteq> working_line" "WaitForFrames j u \<noteq> working_line" for j k u
      by (simp_all add: working_line_def)
    show ?thesis
      by (simp add: xs_def w c d del: io_seq.simps io_bind_print) (simp add: working_line_def)
  qed
  ultimately show ?thesis
    using set_fst_io_seq [of xs] by auto
qed

lemma call_in_bind: "ev \<in> set (fst (io_bind (sdk_call ev r) f))"
  by (cases r) (auto simp: fst_io_bind sdk_call_def)

lemma working_in_ok_try:
  assumes "attempt_ok sdk cs"
  shows "working_line \<in> set (fst (attempt_try sdk i cs)) \<and>
         WaitForFrames i (Some 5000) \<in> set (fst (attempt_try sdk i cs))"
proof -
  have "snd (attempt_try sdk i cs) = Inr ()"
    using assms by (simp add: attempt_try_ok)
  then show ?thesis
    unfolding attempt_try_def io_seq_ok_iff
    by (subst (1 2) set_fst_io_seq_ok)
       (simp_all add: call_in_bind working_line_def del: io_seq.simps io_bind_print)
qed

lemma working_iff: "working_line \<in> set (fst (attempt sdk i cs)) \<longleftrightarrow> attempt_ok sdk cs"
proof (cases rule: attempt_cases [of sdk cs i])
  case ok
  then show ?thesis using working_in_ok_try [of sdk cs i] by simp
next
  case (failed msg)
  then show ?thesis
    using working_not_in_failed_try [of sdk cs i] by (simp add: working_line_def)
qed

text \<open>
  C9. In the fallback loop a candidate is reported as the working configuration only if
  its pipeline started and \<open>wait_for_frames(5000)\<close> returned a frame set: when the
  WORKING CONFIGURATION line is printed in an attempt, \<open>pipeline.start\<close> answered, the wait
  of 5000 ms was made and it answered. When the wait raises (no frames in time), the line
  is not printed, the attempt does not leave the loop, and the loop goes on with the
  remaining candidates.
\<close>

theorem working_requires_frames:
  "(working_line \<in> set (fst (attempt (sdk i) i cs)) \<longrightarrow>
      as_start (sdk i) (streams_of cs) = Inr () \<and>
      \<not> isl (as_wait_for_frames (sdk i) 5000) \<and>
      WaitForFrames i (Some 5000) \<in> set (fst (attempt (sdk i) i cs))) \<and>
   (isl (as_wait_for_frames (sdk i) 5000) \<longrightarrow>
      working_line \<notin> set (fst (attempt (sdk i) i cs)) \<and>
      snd (attempt (sdk i) i cs) = Inr False \<and>
      pipeline_attempts sdk i (cs # rest) =
        (fst (attempt (sdk i) i cs) @ fst (pipeline_attempts sdk (Suc i) rest),
         snd (pipeline_attempts sdk (Suc i) rest)))"
proof (intro conjI impI)
  assume w: "working_line \<in> set (fst (attempt (sdk i) i cs))"
  then have ok: "attempt_ok (sdk i) cs" by (simp add: working_iff)
  then show "as_start (sdk i) (streams_of cs) = Inr ()"
    and "\<not> isl (as_wait_for_frames (sdk i) 5000)"
    by (simp_all add: attempt_ok_def)
  show "WaitForFrames i (Some 5000) \<in> set (fst (attempt (sdk i) i cs))"
    using working_in_ok_try [OF ok, of i]
    by (cases rule: attempt_cases [of "sdk i" cs i]) simp_all
next
  assume "isl (as_wait_for_frames (sdk i) 5000)"
  then have nok: "\<not> attempt_ok (sdk i) cs" by (simp add: attempt_ok_def)
  then show "working_line \<notin> set (fst (attempt (sdk i) i cs))" by (simp add: working_iff)
  show "snd (attempt (sdk i) i cs) = Inr False"
    using nok by (cases rule: attempt_cases [of "sdk i" cs i]) simp_all
  show "pipeline_attempts sdk i (cs # rest) =
        (fst (attempt (sdk i) i cs) @ fst (pipeline_attempts sdk (Suc i) rest),
         snd (pipeline_attempts sdk (Suc i) rest))"
    using nok by (rule pipeline_attempts_failed)
qed

theorem working_requires_frames_witness:
  "working_line \<in> set (fst (attempt sdk_good 0 [(''depth'', True), (''color'', False)])) \<and>
   as_start sdk_good (streams_of [(''depth'', True), (''color'', False)]) = Inr () \<and>
   WaitForFrames 0 (Some 5000)
     \<in> set (fst (attempt sdk_good 0 [(''depth'', True), (''color'', False)])) \<and>
   isl (as_wait_for_frames sdk_no_frames 5000) \<and>
   working_line \<notin> set (fst (attempt sdk_no_frames 0 [(''depth'', True), (''color'', False)])) \<and>
   snd (attempt sdk_no_frames 0 [(''depth'', True), (''color'', False)]) = Inr False"
proof -
  have w: "working_line \<in> set (fst (attempt sdk_good 0 [(''depth'', True), (''color'', False)]))"
    by (simp add: attempt_def attempt_try_def sdk_good_def streams_of_def settings_get_def
      io_when_def try_except_def io_bind_def sdk_call_def io_ret_def io_print_def
      working_line_def)
  have n: "isl (as_wait_for_frames sdk_no_frames 5000)"
    by (simp add: sdk_no_frames_def)
  show ?thesis
    using w n
      working_requires_frames [of "\<lambda>_. sdk_good" 0 "[(''depth'', True), (''color'', False)]" "[]"]
      working_requires_frames [of "\<lambda>_. sdk_no_frames" 0 "[(''depth'', True), (''color'', False)]" "[]"]
    by (simp del: pipeline_attempts.simps)
qed

subsection \<open>More on the script monad\<close>

lemma show_nat_digit [simp]:
  "show_nat 0 = ''0''" "show_nat 1 = ''1''" "show_nat (Suc 0) = ''1''" "show_nat 2 = ''2''"
  "show_nat (Suc (Suc 0)) = ''2''" "show_nat 5 = ''5''"
  by code_simp+

lemma no_exit_bind:
  "snd m \<noteq> Inl (SystemExit n) \<Longrightarrow> (\<forall>x. snd (f x) \<noteq> Inl (SystemExit n)) \<Longrightarrow>
   snd (io_bind m f) \<noteq> Inl (SystemExit n)"
  by (auto simp: snd_io_bind split: sum.splits)

lemma snd_try_except:
  "snd (try_except m h) =
     (case snd m of
        Inl (Exception msg) \<Rightarrow> snd (h msg)
      | Inl (SystemExit n) \<Rightarrow> Inl (SystemExit n)
      | Inr x \<Rightarrow> Inr x)"
  by (cases m) (auto simp: try_except_def split: sum.splits exn.splits prod.splits)

lemma snd_try_except_all:
  "snd (try_except_all m h) = (case snd m of Inl e \<Rightarrow> snd h | Inr x \<Rightarrow> Inr x)"
  by (cases m; cases h) (auto simp: try_except_all_def split: sum.splits)

lemma no_exit_try_except_all:
  "snd h \<noteq> Inl (SystemExit n) \<Longrightarrow> snd (try_except_all m h) \<noteq> Inl (SystemExit n)"
  by (auto simp: snd_try_except_all split: sum.splits)

lemma try_except_returns:
  "(\<forall>n. snd m \<noteq> Inl (SystemExit n)) \<Longrightarrow> (\<forall>e. snd (h e) = Inr ()) \<Longrightarrow>
   snd (try_except m h) = Inr ()"
  by (auto simp: snd_try_except split: sum.splits exn.splits)

lemma no_exit_call_seq:
  "(\<forall>y. snd (h y) \<noteq> Inl (SystemExit n)) \<Longrightarrow>
   snd (io_bind (sdk_call ev r) (\<lambda>x. io_seq (io_print (g x) # map h (k x)))) \<noteq>
     Inl (SystemExit n)"
  by (rule no_exit_bind, simp, rule allI, rule io_seq_no_exit) auto

lemma snd_try_finally:
  "snd (try_finally m fin) = (case snd fin of Inl e \<Rightarrow> Inl e | Inr u \<Rightarrow> snd m)"
  by (cases m; cases fin) (auto simp: try_finally_def split: sum.splits)

lemma fst_try_finally: "fst (try_finally m fin) = fst m @ fst fin"
  by (cases m; cases fin) (auto simp: try_finally_def split: sum.splits)

lemma fst_io_seq_last:
  "snd (io_seq xs) = Inr () \<Longrightarrow> fst (io_seq (xs @ [m])) = fst (io_seq xs) @ fst m"
  by (induction xs) (auto simp: fst_io_bind snd_io_bind split: sum.splits)

lemmas script_defs = camera_main_def get_system_info_def sdk_calls_def
  stream_try_def stream_test_def wait_frame_def
  io_when_def try_except_def try_except_all_def try_finally_def
  io_bind_def sdk_call_def io_ret_def io_print_def io_raise_def

subsection \<open>The enumeration report of camera\_diagnostic.py\<close>

lemma no_exit_print_modes: "snd (print_modes p) \<noteq> Inl (SystemExit n)"
proof (cases p)
  case (Pair a b)
  show ?thesis
    unfolding Pair print_modes_def prod.case
    by (rule io_seq_no_exit) (auto simp: io_when_def)
qed

lemma no_exit_report_sensor: "snd (report_sensor i p) \<noteq> Inl (SystemExit n)"
proof (cases p)
  case (Pair j s)
  show ?thesis
    unfolding Pair report_sensor_def prod.case
    by (rule io_seq_no_exit)
       (simp add: snd_bind_call_print_exit no_exit_call_seq no_exit_print_modes
          del: io_seq.simps io_bind_print)
qed

lemma no_exit_info_line: "snd (info_line i l f r) \<noteq> Inl (SystemExit n)"
  by (simp add: info_line_def snd_bind_call_print_exit)

lemma report_device_returns: "snd (report_device i dev) = Inr ()"
  unfolding report_device_def
  by (rule try_except_returns, rule allI, rule io_seq_no_exit)
     (simp_all add: no_exit_info_line no_exit_try_except_all no_exit_call_seq
        no_exit_report_sensor del: io_seq.simps io_bind_print)

lemma report_devices_split:
  "report_devices i (dev # devs) =
     (fst (report_device i dev) @ fst (report_devices (Suc i) devs),
      snd (report_devices (Suc i) devs))"
  using report_device_returns [of i dev]
  by (cases "report_device i dev") (auto simp: io_bind_def split: prod.splits)

text \<open>
  C10. In the report of the enumerated devices an error raised while one device is
  queried is caught for that device alone. For every list of devices, whatever each of
  their queries answers, the loop ends normally and its run is the runs of the devices one
  after the other, each being what \<open>report_device\<close> does for that device and its index: a
  failure on one device, reported on the line ``Error querying device'', takes nothing
  away from what is queried and printed for the devices after it.
\<close>

theorem report_devices_each:
  "snd (report_devices i devs) = Inr () \<and>
   fst (report_devices i devs) =
     concat (map (\<lambda>(k, dev). fst (report_device k dev)) (zip [i..<i + length devs] devs))"
proof (induction devs arbitrary: i)
  case Nil
  show ?case by simp
next
  case (Cons dev devs)
  have "[i..<i + length (dev # devs)] = i # [Suc i..<Suc i + length devs]"
    by (simp add: upt_conv_Cons del: upt_Suc)
  then show ?case
    using Cons.IH [of "Suc i"]
    by (simp add: report_devices_split del: report_devices.simps)
qed

theorem report_devices_each_witness:
  "report_devices 0 [dev_broken, dev_good] =
     ([Print (CHR 0x0A # ''DEVICE 1:''), GetInfo 0 ''name'',
       Print ''  Name:          Intel RealSense L515'', GetInfo 0 ''serial_number'',
       Print ''  Error querying device: device is busy'',
       Print (CHR 0x0A # ''DEVICE 2:''), GetInfo 1 ''name'',
       Print ''  Name:          Intel RealSense L515'', GetInfo 1 ''serial_number'',
       Print ''  Serial Number: f0141140'', GetInfo 1 ''product_line'',
       Print ''  Product Line:  L500'', GetInfo 1 ''firmware_version'',
       Print ''  Firmware:      1.5.8.1'', GetInfo 1 ''usb_type_descriptor'',
       Print ''  USB Type:      3.2'', GetInfo 1 ''physical_port'',
       Print ''  Physical Port: usb-1'', QuerySensors 1,
       Print (CHR 0x0A # ''  Device has 0 sensors:'')],
      Inr ())"
proof -
  have a: "fst (report_device 0 dev_broken) =
       [Print (CHR 0x0A # ''DEVICE 1:''), GetInfo 0 ''name'',
        Print ''  Name:          Intel RealSense L515'', GetInfo 0 ''serial_number'',
        Print ''  Error querying device: device is busy'']"
    by (simp add: report_device_def info_line_def dev_broken_def dev_good_def script_defs)
  have b: "fst (report_device 1 dev_good) =
       [Print (CHR 0x0A # ''DEVICE 2:''), GetInfo 1 ''name'',
        Print ''  Name:          Intel RealSense L515'', GetInfo 1 ''serial_number'',
        Print ''  Serial Number: f0141140'', GetInfo 1 ''product_line'',
        Print ''  Product Line:  L500'', GetInfo 1 ''firmware_version'',
        Print ''  Firmware:      1.5.8.1'', GetInfo 1 ''usb_type_descriptor'',
        Print ''  USB Type:      3.2'', GetInfo 1 ''physical_port'',
        Print ''  Physical Port: usb-1'', QuerySensors 1,
        Print (CHR 0x0A # ''  Device has 0 sensors:'')]"
    by (simp add: report_device_def info_line_def dev_good_def script_defs)
  show ?thesis
    using report_devices_each [of 0 "[dev_broken, dev_good]"] a b
    by (simp add: prod_eq_iff upt_conv_Cons del: report_devices.simps)
qed

subsection \<open>No device enumerated\<close>

text \<open>
  C3. When \<open>query_devices()\<close> of camera\_diagnostic.py answers the empty list, \<open>main\<close>
  reports that no device was detected, lists the troubleshooting steps and returns: the
  only calls it made are the creation of the context and the enumeration, so no pipeline
  or configuration is created, no device is enabled and no pipeline is started.
\<close>

theorem camera_main_no_device:
  assumes "ce_devices env = Inr []"
  shows "snd (camera_main env) = Inr () \<and>
         sdk_calls (fst (camera_main env)) = [NewContext, QueryDevices] \<and>
         (\<exists>t. fst (camera_main env) =
            t @ [QueryDevices,
                 Print (''ERROR: No Intel RealSense devices detected!'' @ [CHR 0x0A]),
                 Print ''Troubleshooting steps:'',
                 Print ''1. Check that the camera is properly connected via USB'',
                 Print ''2. Try a different USB port (preferably USB 3.0)'',
                 Print ''3. Restart your computer'',
                 Print ''4. Reinstall the Intel RealSense SDK'',
                 Print ''5. Check Windows Device Manager for issues with the camera''])"
  using assms by (simp add: script_defs)

theorem camera_main_no_device_witness:
  "snd (camera_main env_no_device) = Inr () \<and>
   sdk_calls (fst (camera_main env_no_device)) = [NewContext, QueryDevices]"
  using camera_main_no_device [of env_no_device]
  by (simp add: env_no_device_def)

text \<open>
  photo1.py, by contrast, goes on after an empty enumeration, as its message ``Trying
  alternative methods'' announces: it enables a device by a serial number written in the
  script.
\<close>

theorem photo1_enables_device:
  "ph_devices photo_no_device = Inr [] \<and>
   snd (photo1_detect photo_no_device) = Inr () \<and>
   sdk_calls (fst (photo1_detect photo_no_device)) =
     [NewPipeline 0, NewConfig 0, NewContext, QueryDevices, ContextDevices,
      EnableDevice 0 ''6&1758D7C'']"
  by (simp add: photo1_detect_def photo_no_device_def script_defs)

subsection \<open>Stopping in the finally block of camera\_diagnostic.py\<close>

text \<open>
  C2. In the stream test of camera\_diagnostic.py the \<open>pipeline.stop()\<close> of the \<open>finally\<close>
  block is not guarded: whenever it raises, also after a failure to start that the
  \<open>except\<close> branch has already reported, the exception leaves the statement and
  ``Pipeline stopped.'' is not printed. (In advanced\_diagnostic.py the same call is wrapped
  in \<open>try\<close> / \<open>except: pass\<close>, see \<open>attempt_handler_stop\<close>.)
\<close>

theorem stream_try_stop_raises:
  assumes "cs_stop sdk = Inl msg"
  shows "snd (stream_try sdk) = Inl (Exception msg) \<and>
         (\<exists>t. fst (stream_try sdk) = t @ [Print ''Stopping pipeline...'', Stop 0])"
proof -
  have fin: "io_seq [io_print ''Stopping pipeline...'', sdk_call (Stop 0) (cs_stop sdk),
                     io_print ''Pipeline stopped.''] =
             ([Print ''Stopping pipeline...'', Stop 0], Inl (Exception msg))"
    using assms by (simp add: io_bind_def sdk_call_def io_print_def del: io_bind_print)
  show ?thesis
    unfolding stream_try_def fin by (simp add: snd_try_finally fst_try_finally)
qed

theorem stream_try_stop_raises_witness:
  "stream_try cam_start_fails =
     ([EnableStream 0 depth_640, EnableStream 0 color_640, Print ''Starting stream...'',
       Start 0 [depth_640, color_640], Print ''Failed to start stream: No device connected'',
       Print ''Stopping pipeline...'', Stop 0],
      Inl (Exception ''stop() cannot be called before start()'')) \<and>
   stream_test cam_start_fails dev_good =
     ([GetInfo 0 ''name'', Print ''Setting up pipeline for device: Intel RealSense L515'',
       NewPipeline 0, NewConfig 0, GetInfo 0 ''serial_number'', EnableDevice 0 ''f0141140'',
       Print ''Targeting specific device with serial: f0141140'',
       EnableStream 0 depth_640, EnableStream 0 color_640, Print ''Starting stream...'',
       Start 0 [depth_640, color_640], Print ''Failed to start stream: No device connected'',
       Print ''Stopping pipeline...'', Stop 0,
       Print ''Error during stream test: stop() cannot be called before start()''],
      Inr ())"
proof -
  have a: "fst (stream_try cam_start_fails) =
     [EnableStream 0 depth_640, EnableStream 0 color_640, Print ''Starting stream...'',
       Start 0 [depth_640, color_640], Print ''Failed to start stream: No device connected'',
       Print ''Stopping pipeline...'', Stop 0]"
    by (simp add: cam_start_fails_def script_defs)
  have b: "stream_try cam_start_fails =
     (fst (stream_try cam_start_fails), Inl (Exception ''stop() cannot be called before start()''))"
    using stream_try_stop_raises [of cam_start_fails "''stop() cannot be called before start()''"]
    by (simp add: cam_start_fails_def prod_eq_iff)
  show ?thesis
    unfolding stream_test_def
    by (subst (1 2) b) (simp add: a dev_good_def cam_start_fails_def script_defs)
qed

subsection \<open>Waiting for a pair of frames\<close>

lemma frames_attempt_returns: "\<exists>b. snd (frames_attempt sdk k) = Inr b"
proof -
  have "snd (io_seq ms) \<noteq> Inl (SystemExit n) \<Longrightarrow>
        snd (io_bind (io_seq ms) (\<lambda>_. io_ret True)) \<noteq> Inl (SystemExit n)" for ms n
    by (simp add: no_exit_bind)
  show ?thesis
    unfolding frames_attempt_def snd_try_except
    by (cases "da_wait_for_frames sdk k"; cases "da_imwrite sdk"; cases "da_stop sdk")
       (auto simp: script_defs Let_def split: option.splits)
qed

lemma frames_attempt_retry:
  assumes "case da_wait_for_frames sdk k of
             Inl e \<Rightarrow> True
           | Inr frames \<Rightarrow> depth_frame frames = None \<or> color_frame frames = None"
  shows "frames_attempt sdk k =
           ([WaitForFrames 0 (Some 5000),
             Print (case da_wait_for_frames sdk k of
                      Inl e \<Rightarrow> ''Error waiting for frames: '' @ e
                    | Inr frames \<Rightarrow> ''Missing frames, retrying...'')],
            Inr False)"
  using assms unfolding frames_attempt_def
  by (cases "da_wait_for_frames sdk k") (auto simp: script_defs split: option.splits)

lemma frames_loop_returns: "\<exists>b. snd (frames_loop sdk tries) = Inr b"
proof (induction sdk tries rule: frames_loop.induct)
  case (1 sdk tries)
  show ?case
  proof (cases "tries < max_tries")
    case False
    then show ?thesis by (auto simp: frames_loop.simps [of sdk tries])
  next
    case True
    from frames_attempt_returns [of sdk "tries + 1"] obtain b where
      b: "snd (frames_attempt sdk (tries + 1)) = Inr b" by blast
    show ?thesis
    proof (cases b)
      case True
      with b \<open>tries < max_tries\<close> show ?thesis
        by (auto simp: frames_loop.simps [of sdk tries] snd_io_bind)
    next
      case False
      with b \<open>tries < max_tries\<close> "1.IH" show ?thesis
        by (auto simp: frames_loop.simps [of sdk tries] snd_io_bind sdk_call_def)
    qed
  qed
qed

text \<open>
  C4. The loop of direct\_camera\_access.py never raises, and a wait that brings no
  complete pair of frames is followed by another one: while attempts are left, if
  \<open>wait_for_frames\<close> raises (no frame set in time) or the frame set lacks the depth or the
  color frame, the attempt prints its report, the script sleeps one second, and the loop
  goes on with the next attempt.
\<close>

theorem frames_loop_polls_again:
  "(\<exists>b. snd (frames_loop sdk tries) = Inr b) \<and>
   (tries < max_tries \<and>
    (case da_wait_for_frames sdk (tries + 1) of
       Inl e \<Rightarrow> True
     | Inr frames \<Rightarrow> depth_frame frames = None \<or> color_frame frames = None) \<longrightarrow>
    frames_loop sdk tries =
      ([Print (''Attempt '' @ show_nat (tries + 1) @ ''/'' @ show_nat max_tries @ ''...''),
        WaitForFrames 0 (Some 5000),
        Print (case da_wait_for_frames sdk (tries + 1) of
                 Inl e \<Rightarrow> ''Error waiting for frames: '' @ e
               | Inr frames \<Rightarrow> ''Missing frames, retrying...''),
        Sleep 1000]
       @ fst (frames_loop sdk (tries + 1)),
       snd (frames_loop sdk (tries + 1))))"
proof (intro conjI impI)
  show "\<exists>b. snd (frames_loop sdk tries) = Inr b" by (rule frames_loop_returns)
next
  assume a: "tries < max_tries \<and>
    (case da_wait_for_frames sdk (tries + 1) of
       Inl e \<Rightarrow> True
     | Inr frames \<Rightarrow> depth_frame frames = None \<or> color_frame frames = None)"
  then have "frames_attempt sdk (tries + 1) =
      ([WaitForFrames 0 (Some 5000),
        Print (case da_wait_for_frames sdk (tries + 1) of
                 Inl e \<Rightarrow> ''Error waiting for frames: '' @ e
               | Inr frames \<Rightarrow> ''Missing frames, retrying...'')],
       Inr False)"
    using frames_attempt_retry [of sdk "tries + 1"] by blast
  then have m: "frames_attempt sdk (Suc tries) =
      ([WaitForFrames 0 (Some 5000),
        Print (case da_wait_for_frames sdk (Suc tries) of
                 Inl e \<Rightarrow> ''Error waiting for frames: '' @ e
               | Inr frames \<Rightarrow> ''Missing frames, retrying...'')],
       Inr False)"
    by simp
  show "frames_loop sdk tries =
      ([Print (''Attempt '' @ show_nat (tries + 1) @ ''/'' @ show_nat max_tries @ ''...''),
        WaitForFrames 0 (Some 5000),
        Print (case da_wait_for_frames sdk (tries + 1) of
                 Inl e \<Rightarrow> ''Error waiting for frames: '' @ e
               | Inr frames \<Rightarrow> ''Missing frames, retrying...''),
        Sleep 1000]
       @ fst (frames_loop sdk (tries + 1)),
       snd (frames_loop sdk (tries + 1)))"
    using a
    by (simp add: frames_loop.simps [of sdk tries] m io_bind_def sdk_call_def case_prod_beta)
qed

theorem frames_loop_polls_again_witness:
  "frames_loop dca_no_color 0 =
     ([Print ''Attempt 1/5...'', WaitForFrames 0 (Some 5000),
       Print ''Missing frames, retrying...'', Sleep 1000]
      @ fst (frames_loop dca_no_color 1),
      snd (frames_loop dca_no_color 1))"
proof -
  have c: "da_wait_for_frames dca_no_color k =
             Inr \<lparr>depth_frame = Some \<lparr>f_width = 640, f_height = 480\<rparr>, color_frame = None\<rparr>"
    for k
    by (simp add: dca_no_color_def)
  show ?thesis
    using frames_loop_polls_again [of dca_no_color 0] c
    by (simp add: max_tries_def)
qed

text \<open>
  In black\_white.py the first wait is fatal by design: an incomplete frame set, like a
  wait that raises, makes the script raise RuntimeError.
\<close>

theorem bw_initial_raises:
  "bw_initial (Inr \<lparr>depth_frame = Some \<lparr>f_width = 640, f_height = 480\<rparr>, color_frame = None\<rparr>) =
     ([WaitForFrames 0 (Some 5000),
       Print ''Error getting frames: Could not get frames from the camera''],
      Inl (Exception
        ''Failed to get frames from the camera. Check connections and try again.'')) \<and>
   bw_initial (Inl ''Frame didn't arrive within 5000'') =
     ([WaitForFrames 0 (Some 5000),
       Print ''Error getting frames: Frame didn't arrive within 5000''],
      Inl (Exception
        ''Failed to get frames from the camera. Check connections and try again.''))"
  by (simp add: bw_initial_def script_defs)

subsection \<open>Started pipelines are stopped\<close>

lemma preset_main_stops:
  assumes "length argv = 2" and "argv ! 1 \<in> set (map fst presets)"
    and "ps_start sdk = Inr ()"
  shows "last (fst (preset_main sdk argv)) = Stop 0"
proof -
  define xs where "xs =
     [sdk_call (NewPipeline 0) (Inr ()), sdk_call (NewConfig 0) (Inr ()),
      sdk_call (Start 0 []) (ps_start sdk)]"
  have ok: "snd (io_seq xs) = Inr ()"
    using assms(3) by (simp add: xs_def io_seq_ok_iff del: io_seq.simps)
  obtain body where "preset_main sdk argv =
      io_seq (xs @ [try_finally body (sdk_call (Stop 0) (ps_stop sdk))])"
    using assms(1,2) by (simp add: preset_main_def Let_def xs_def del: io_seq.simps)
  then show ?thesis
    by (simp add: fst_io_seq_last [OF ok] fst_try_finally del: io_seq.simps)
qed

lemma vv_script_stops:
  assumes "snd (vv_setup env) = Inr ()" and "vv_script env n = Some (t, r)"
  shows "last t = Stop 0"
  using assms
  by (cases "vv_setup env"; cases "vv_try env n")
     (auto simp: vv_script_def io_then_def fst_try_finally sdk_call_def try_finally_def
        split: sum.splits prod.splits)

text \<open>
  With the directory in place the same camera gives a run that acquires frames only
  between the start and the stop: the operator quits in the first iteration. With no
  iteration allowed the script is still running.
\<close>

lemma vv_script_quits:
  "vv_script (vv_read_only\<lparr>vv_exists := True\<rparr>) 1 =
     Some ([NewPipeline 0, NewConfig 0, Resolve 0, GetDevice 0, GetInfo 0 ''product_line'',
            QuerySensors 0, SensorInfo 0 0 ''name'', SensorInfo 0 1 ''name'',
            EnableStream 0 depth_640, EnableStream 0 color_640,
            Start 0 [depth_640, color_640], PathExists ''saved_images'',
            WaitForFrames 0 None, ScaleBar 480, WaitForFrames 0 None, Render, WaitKey 1,
            DestroyAllWindows, Stop 0],
           Inr ())"
  "vv_script (vv_read_only\<lparr>vv_exists := True\<rparr>) 0 = None"
  by (simp_all add: vv_script_def vv_setup_def vv_try_def vv_read_only_def io_then_def
        script_defs)

text \<open>
  C6. In video\_viewer\_with\_photo\_saver.py the pipeline is started on line 36, but the
  \<open>try\<close> whose \<open>finally\<close> stops it begins on line 61, after \<open>os.makedirs\<close>. When the
  directory cannot be created, the script ends with that error, the pipeline started and
  never stopped.
\<close>

theorem vv_start_without_stop:
  "vv_script vv_read_only n =
     Some ([NewPipeline 0, NewConfig 0, Resolve 0, GetDevice 0, GetInfo 0 ''product_line'',
            QuerySensors 0, SensorInfo 0 0 ''name'', SensorInfo 0 1 ''name'',
            EnableStream 0 depth_640, EnableStream 0 color_640,
            Start 0 [depth_640, color_640], PathExists ''saved_images'',
            MakeDirs ''saved_images''],
           Inl (Exception ''[Errno 13] Permission denied: saved_images''))"
  by (simp add: vv_script_def vv_setup_def vv_read_only_def io_then_def script_defs)

end
